theory Spec2Isabelle
  imports Main
begin

section \<open>Data exchanged by the widget\<close>

text \<open>
  The widget (\<^verbatim>\<open>src/templates/widget/index.ts\<close>) fetches a proof-of-work challenge,
  hands it to a web worker (\<^verbatim>\<open>src/templates/widget/service-worker.ts\<close>), and submits
  the worker's answer. Exceptions are values of type \<open>error\<close>: the kinds the two network
  helpers can reject with, and the two JavaScript run-time errors the handlers themselves
  can raise.
\<close>

datatype error =
    NetworkError
  | BadStatus nat
  | MalformedBody
  | ChallengeExpired
  | ChallengeReused
  | ProofMismatch
  | TypeError
  | ReferenceError string

text \<open>
  Modelled from the spec: the type \<^verbatim>\<open>PoWConfig\<close> is declared in \<^verbatim>\<open>./types\<close>, which is
  not among the sources. The spec gives a challenge the fields key, string and duration;
  \<^verbatim>\<open>index.ts\<close> reads only \<^verbatim>\<open>config.string\<close>.
\<close>

record PoWConfig =
  key :: string
  string :: string
  duration :: nat

text \<open>
  The worker's answer as \<^verbatim>\<open>index.ts\<close> reads it: \<^verbatim>\<open>resp.payload.work.nonce\<close> and
  \<^verbatim>\<open>resp.payload.work.result\<close>.
\<close>

record WasmWork =
  nonce :: nat
  result :: string

record ServiceWorkerWork =
  work :: WasmWork

text \<open>The proof object built in the \<^verbatim>\<open>result\<close> branch of \<^verbatim>\<open>worker.onmessage\<close>.\<close>

record Work =
  key :: string
  string :: string
  nonce :: nat
  result :: string

text \<open>
  A message from the worker: a \<^verbatim>\<open>type\<close> tag and, for \<^verbatim>\<open>result\<close>, a payload. A message
  posted without a payload has \<open>payload = None\<close> (the field is \<^verbatim>\<open>undefined\<close>).
\<close>

record ServiceWorkerAction =
  type :: string
  payload :: "ServiceWorkerWork option"

section \<open>The orchestrator: \<^verbatim>\<open>index.ts\<close>\<close>

text \<open>
  Everything the module does to the outside is an entry of a trace, in program order:
  the three status texts of \<^verbatim>\<open>CONST.messageText()\<close>, \<^verbatim>\<open>console.error\<close>, the calls of
  \<^verbatim>\<open>fetchPoWConfig\<close>, \<^verbatim>\<open>worker.postMessage\<close>, \<^verbatim>\<open>sendWork\<close> and \<^verbatim>\<open>sendToParent\<close>, and
  the assignment \<^verbatim>\<open>CONST.btn().checked = true\<close>. An exception that leaves the
  asynchronous \<^verbatim>\<open>onmessage\<close> handler rejects its promise, which nothing handles:
  \<open>Unhandled\<close>. The helpers of \<^verbatim>\<open>./const\<close> are taken not to throw.
\<close>

datatype effect =
    During
  | ErrorText
  | After
  | ConsoleError error
  | FetchPoWConfig
  | PostMessage PoWConfig
  | SendWork Work
  | SendToParent string
  | Checked
  | Unhandled error

text \<open>
  The module-level variables \<^verbatim>\<open>LOCK\<close> and \<^verbatim>\<open>config\<close> (\<open>None\<close> while still
  unassigned), the number of \<^verbatim>\<open>solveCaptchaRunner\<close> activations suspended at
  \<^verbatim>\<open>await fetchPoWConfig()\<close>, the number of handler activations suspended at
  \<^verbatim>\<open>await sendWork(proof)\<close>, and the trace.
\<close>

record orch =
  LOCK :: bool
  config :: "PoWConfig option"
  fetching :: nat
  submitting :: nat
  trace :: "effect list"

definition init_orch :: orch where
  "init_orch = \<lparr>LOCK = False, config = None, fetching = 0, submitting = 0, trace = []\<rparr>"

text \<open>
  \<^verbatim>\<open>solveCaptchaRunner\<close> up to its \<^verbatim>\<open>await\<close>: \<^verbatim>\<open>LOCK = true\<close>, the "during" text, the
  call of \<^verbatim>\<open>fetchPoWConfig\<close>. Nothing reads \<^verbatim>\<open>LOCK\<close>.
\<close>

definition solveCaptchaRunner_call :: "orch \<Rightarrow> orch" where
  "solveCaptchaRunner_call s =
     s\<lparr>LOCK := True, fetching := Suc (fetching s), trace := trace s @ [During, FetchPoWConfig]\<rparr>"

text \<open>
  \<^verbatim>\<open>solveCaptchaRunner\<close> after the \<^verbatim>\<open>await\<close>: on a value, \<^verbatim>\<open>config\<close> is assigned and
  posted to the worker; on a rejection the \<^verbatim>\<open>catch\<close> block runs.
\<close>

definition solveCaptchaRunner_resume :: "error + PoWConfig \<Rightarrow> orch \<Rightarrow> orch" where
  "solveCaptchaRunner_resume r s =
     (case r of
        Inr c \<Rightarrow> s\<lparr>config := Some c, trace := trace s @ [PostMessage c]\<rparr>
      | Inl e \<Rightarrow> s\<lparr>LOCK := False, trace := trace s @ [ErrorText, ConsoleError e]\<rparr>)"

text \<open>
  \<^verbatim>\<open>worker.onmessage\<close> up to its first \<^verbatim>\<open>await\<close>. The \<^verbatim>\<open>switch\<close> has the cases
  \<^verbatim>\<open>"init"\<close> and \<^verbatim>\<open>"result"\<close> and no default. Building the proof reads
  \<^verbatim>\<open>config.string\<close> and \<^verbatim>\<open>resp.payload.work\<close>; either read of \<^verbatim>\<open>undefined\<close> is a
  \<^verbatim>\<open>TypeError\<close>. The parameter \<open>sitekey\<close> is the value of \<^verbatim>\<open>CONST.sitekey()\<close>.
\<close>

definition onmessage :: "string \<Rightarrow> ServiceWorkerAction \<Rightarrow> orch \<Rightarrow> orch" where
  "onmessage sitekey resp s =
     (if type resp = ''init'' then solveCaptchaRunner_call s
      else if type resp = ''result'' then
        (case config s of
           None \<Rightarrow> s\<lparr>trace := trace s @ [Unhandled TypeError]\<rparr>
         | Some c \<Rightarrow>
            (case payload resp of
               None \<Rightarrow> s\<lparr>trace := trace s @ [Unhandled TypeError]\<rparr>
             | Some p \<Rightarrow>
                 s\<lparr>submitting := Suc (submitting s),
                   trace := trace s @
                     [SendWork \<lparr>key = sitekey, string = PoWConfig.string c,
                                nonce = WasmWork.nonce (work p),
                                result = WasmWork.result (work p)\<rparr>]\<rparr>))
      else s)"

text \<open>
  The \<^verbatim>\<open>result\<close> branch after \<^verbatim>\<open>await sendWork(proof)\<close>. There is no \<^verbatim>\<open>try\<close> around
  it: a rejection leaves the handler at once.
\<close>

definition onmessage_resume :: "error + string \<Rightarrow> orch \<Rightarrow> orch" where
  "onmessage_resume r s =
     (case r of
        Inr token \<Rightarrow> s\<lparr>LOCK := False, trace := trace s @ [SendToParent token, Checked, After]\<rparr>
      | Inl e \<Rightarrow> s\<lparr>trace := trace s @ [Unhandled e]\<rparr>)"

text \<open>
  What can happen to the module: a call of the exported \<^verbatim>\<open>solveCaptchaRunner\<close>, a
  message from the worker, the settlement of a pending \<^verbatim>\<open>fetchPoWConfig\<close>, the
  settlement of a pending \<^verbatim>\<open>sendWork\<close>. A settlement needs a pending call; otherwise
  the event cannot occur (\<open>None\<close>).
\<close>

datatype event =
    Call
  | Message ServiceWorkerAction
  | ConfigFetched "error + PoWConfig"
  | WorkSent "error + string"

definition step :: "string \<Rightarrow> event \<Rightarrow> orch \<Rightarrow> orch option" where
  "step sitekey ev s =
     (case ev of
        Call \<Rightarrow> Some (solveCaptchaRunner_call s)
      | Message resp \<Rightarrow> Some (onmessage sitekey resp s)
      | ConfigFetched r \<Rightarrow>
          (if fetching s = 0 then None
           else Some (solveCaptchaRunner_resume r (s\<lparr>fetching := fetching s - 1\<rparr>)))
      | WorkSent r \<Rightarrow>
          (if submitting s = 0 then None
           else Some (onmessage_resume r (s\<lparr>submitting := submitting s - 1\<rparr>))))"

fun run :: "string \<Rightarrow> event list \<Rightarrow> orch \<Rightarrow> orch option" where
  "run sitekey [] s = Some s"
| "run sitekey (ev # evs) s =
     (case step sitekey ev s of None \<Rightarrow> None | Some s' \<Rightarrow> run sitekey evs s')"

text \<open>Counting what a trace and an event list contain.\<close>

fun is_relay :: "effect \<Rightarrow> bool" where
  "is_relay (SendToParent token) = True"
| "is_relay _ = False"

fun is_post :: "effect \<Rightarrow> bool" where
  "is_post (PostMessage c) = True"
| "is_post _ = False"

fun is_result :: "event \<Rightarrow> bool" where
  "is_result (Message resp) = (type resp = ''result'')"
| "is_result _ = False"

fun is_accepted :: "event \<Rightarrow> bool" where
  "is_accepted (WorkSent (Inr token)) = True"
| "is_accepted _ = False"

fun stores_config :: "event \<Rightarrow> bool" where
  "stores_config (ConfigFetched (Inr c)) = True"
| "stores_config _ = False"

definition relays :: "orch \<Rightarrow> nat" where
  "relays s = length (filter is_relay (trace s))"

text \<open>
  The number of challenges posted to the worker and not yet answered, after a list of
  events and starting from \<open>n\<close>: the continuation of a successful fetch posts one, and a
  \<^verbatim>\<open>result\<close> message answers the oldest one outstanding (the worker handles its
  messages in order); a \<^verbatim>\<open>result\<close> with none outstanding answers nothing.
\<close>

fun outstanding :: "nat \<Rightarrow> event list \<Rightarrow> nat" where
  "outstanding n [] = n"
| "outstanding n (ev # evs) =
     outstanding (if stores_config ev then Suc n else if is_result ev then n - 1 else n) evs"

section \<open>The worker: \<^verbatim>\<open>service-worker.ts\<close>\<close>

text \<open>
  On start-up the module posts \<^verbatim>\<open>ready\<close>, installs \<^verbatim>\<open>onmessage\<close>, and posts
  \<^verbatim>\<open>{type: 'init'}\<close>. (Logging is left out.)
\<close>

definition ready :: ServiceWorkerAction where
  "ready = \<lparr>type = ''ready'', payload = None\<rparr>"

definition worker_startup :: "ServiceWorkerAction list" where
  "worker_startup = [ready, \<lparr>type = ''init'', payload = None\<rparr>]"

text \<open>
  The handler reads two identifiers, \<^verbatim>\<open>work\<close> and \<^verbatim>\<open>w\<close>, that it does not bind; the
  module neither declares nor imports them, and it never calls the imported \<^verbatim>\<open>prove\<close>.
  A \<open>scope\<close> gives the bindings such identifiers have when a message is delivered;
  reading an unbound one throws \<^verbatim>\<open>ReferenceError\<close>. In the module as written nothing
  binds them: \<open>module_scope\<close>.
\<close>

type_synonym scope = "string \<Rightarrow> WasmWork option"

definition module_scope :: scope where
  "module_scope = (\<lambda>x. None)"

definition read_identifier :: "scope \<Rightarrow> string \<Rightarrow> error + WasmWork" where
  "read_identifier sc x = (case sc x of None \<Rightarrow> Inl (ReferenceError x) | Some v \<Rightarrow> Inr v)"

text \<open>
  The worker's \<^verbatim>\<open>onmessage\<close>, on the list of messages posted so far: the payload is
  built from \<^verbatim>\<open>work\<close>, the (unused) message \<^verbatim>\<open>res\<close> from \<^verbatim>\<open>w\<close>, then the result is
  posted. \<^verbatim>\<open>config\<close> is read from the event and used by nothing but the closure
  \<^verbatim>\<open>progressCallback\<close>, which nothing calls. The first component is the exception that
  leaves the handler, if any. There is no \<^verbatim>\<open>try\<close> in the handler.
\<close>

definition onmessage_worker ::
  "scope \<Rightarrow> PoWConfig \<Rightarrow> ServiceWorkerAction list \<Rightarrow> error option \<times> ServiceWorkerAction list"
where
  "onmessage_worker sc config_msg posted =
     (case read_identifier sc ''work'' of
        Inl e \<Rightarrow> (Some e, posted)
      | Inr wk \<Rightarrow>
          (case read_identifier sc ''w'' of
             Inl e \<Rightarrow> (Some e, posted)
           | Inr v \<Rightarrow> (None, posted @ [\<lparr>type = ''result'', payload = Some \<lparr>work = wk\<rparr>\<rparr>])))"


section \<open>Facts shared by the proofs\<close>

lemmas orch_defs = step_def onmessage_def onmessage_resume_def solveCaptchaRunner_call_def
  solveCaptchaRunner_resume_def

text \<open>
  Each step raises the number of pending submissions plus relayed tokens by at most one,
  and only when the step handles a \<^verbatim>\<open>result\<close> message.
\<close>

lemma step_owed:
  assumes "step sitekey ev s = Some s'"
  shows "submitting s' + relays s' \<le> submitting s + relays s + (if is_result ev then 1 else 0)"
  using assms
  by (cases ev) (auto simp: orch_defs relays_def split: if_splits option.splits sum.splits)

lemma step_relays:
  assumes "step sitekey ev s = Some s'"
  shows "relays s' = relays s + (if is_accepted ev then 1 else 0)"
  using assms
  by (cases ev) (auto simp: orch_defs relays_def split: if_splits option.splits sum.splits)

lemma run_owed:
  "run sitekey evs s = Some s' \<Longrightarrow>
     submitting s' + relays s' \<le> submitting s + relays s + length (filter is_result evs)"
proof (induction evs arbitrary: s)
  case Nil
  then show ?case by simp
next
  case (Cons ev evs)
  then obtain s1 where s1: "step sitekey ev s = Some s1" and r: "run sitekey evs s1 = Some s'"
    by (auto split: option.splits)
  from Cons.IH [OF r] step_owed [OF s1] show ?case by (simp split: if_splits)
qed

lemma run_relays:
  "run sitekey evs s = Some s' \<Longrightarrow> relays s' = relays s + length (filter is_accepted evs)"
proof (induction evs arbitrary: s)
  case Nil
  then show ?case by simp
next
  case (Cons ev evs)
  then obtain s1 where s1: "step sitekey ev s = Some s1" and r: "run sitekey evs s1 = Some s'"
    by (auto split: option.splits)
  from Cons.IH [OF r] step_relays [OF s1] show ?case by simp
qed

text \<open>
  Only the continuation of a successful fetch assigns \<^verbatim>\<open>config\<close> and posts to the
  worker.
\<close>

lemma step_keeps_config:
  assumes "step sitekey ev s = Some s'" and "\<not> stores_config ev"
  shows "config s' = config s \<and> (\<exists>t. trace s' = trace s @ t \<and> filter is_post t = [])"
proof (cases ev)
  case Call
  with assms show ?thesis by (auto simp: orch_defs)
next
  case (Message resp)
  with assms show ?thesis by (auto simp: orch_defs split: option.splits)
next
  case (ConfigFetched r)
  with assms show ?thesis by (cases r) (auto simp: orch_defs split: if_splits)
next
  case (WorkSent r)
  with assms show ?thesis by (cases r) (auto simp: orch_defs split: if_splits)
qed

lemma run_keeps_config:
  "run sitekey evs s = Some s' \<Longrightarrow> filter stores_config evs = [] \<Longrightarrow>
     config s' = config s \<and> (\<exists>t. trace s' = trace s @ t \<and> filter is_post t = [])"
proof (induction evs arbitrary: s)
  case Nil
  then show ?case by simp
next
  case (Cons ev evs)
  from Cons.prems(1) obtain s1 where s1: "step sitekey ev s = Some s1"
    and r: "run sitekey evs s1 = Some s'"
    by (auto split: option.splits)
  from Cons.prems(2) have nev: "\<not> stores_config ev" and nevs: "filter stores_config evs = []"
    by (auto split: if_splits)
  from step_keeps_config [OF s1 nev] obtain t1 where
    c1: "config s1 = config s" and t1: "trace s1 = trace s @ t1" "filter is_post t1 = []"
    by blast
  from Cons.IH [OF r nevs] obtain t2 where
    c2: "config s' = config s1" and t2: "trace s' = trace s1 @ t2" "filter is_post t2 = []"
    by blast
  have "trace s' = trace s @ (t1 @ t2) \<and> filter is_post (t1 @ t2) = []"
    using t1 t2 by simp
  with c1 c2 show ?case by metis
qed

text \<open>Counting outstanding challenges over a run in two parts, and over a quiet part.\<close>

lemma outstanding_append:
  "outstanding n (xs @ ys) = outstanding (outstanding n xs) ys"
  by (induction xs arbitrary: n) simp_all

lemma outstanding_quiet:
  "filter stores_config evs = [] \<Longrightarrow> filter is_result evs = [] \<Longrightarrow> outstanding n evs = n"
  by (induction evs arbitrary: n) (auto split: if_splits)

text \<open>
  After a first challenge has gone to the worker and a second call of
  \<^verbatim>\<open>solveCaptchaRunner\<close> has been made, one challenge is outstanding.
\<close>

lemma overlap_has_challenge_outstanding:
  "outstanding 0
     [Message \<lparr>type = ''init'', payload = None\<rparr>,
      ConfigFetched (Inr \<lparr>PoWConfig.key = ''k1'', string = ''salt1'', duration = 30\<rparr>),
      Call] = 1"
  by simp

text \<open>
  Worker messages other than \<^verbatim>\<open>init\<close> leave a module that has not started a cycle in
  that condition.
\<close>

lemma other_message_idle:
  assumes "type m \<noteq> ''init''" and "\<not> LOCK s" and "fetching s = 0"
    and "FetchPoWConfig \<notin> set (trace s)"
  shows "\<exists>s'. step sitekey (Message m) s = Some s' \<and> \<not> LOCK s' \<and> fetching s' = 0
              \<and> FetchPoWConfig \<notin> set (trace s')"
  using assms by (auto simp: step_def onmessage_def split: option.splits)

lemma other_messages_idle:
  "\<forall>m \<in> set ms. type m \<noteq> ''init'' \<Longrightarrow> \<not> LOCK s \<Longrightarrow> fetching s = 0 \<Longrightarrow>
   FetchPoWConfig \<notin> set (trace s) \<Longrightarrow>
   \<exists>s'. run sitekey (map Message ms) s = Some s' \<and> \<not> LOCK s' \<and> fetching s' = 0
        \<and> FetchPoWConfig \<notin> set (trace s')"
proof (induction ms arbitrary: s)
  case Nil
  then show ?case by simp
next
  case (Cons m ms)
  from Cons.prems have "type m \<noteq> ''init''" by simp
  from other_message_idle [OF this Cons.prems(2,3,4)] obtain s1 where
    s1: "step sitekey (Message m) s = Some s1" "\<not> LOCK s1" "fetching s1 = 0"
        "FetchPoWConfig \<notin> set (trace s1)"
    by blast
  from Cons.prems(1) have "\<forall>m \<in> set ms. type m \<noteq> ''init''" by simp
  from Cons.IH [OF this s1(2,3,4)] s1(1) show ?case by simp
qed

text \<open>
  What the worker's handler returns and posts does not depend on the challenge delivered.
\<close>

lemma handler_ignores_challenge:
  "onmessage_worker sc c posted = onmessage_worker sc c' posted"
  by (simp add: onmessage_worker_def)

section \<open>The guard flag\<close>

text \<open>
  C1. The claim: a call of \<^verbatim>\<open>solveCaptchaRunner\<close> while \<^verbatim>\<open>LOCK\<close> is true does nothing.
  The function never tests \<^verbatim>\<open>LOCK\<close>. After the worker's \<^verbatim>\<open>init\<close> message and a
  successful fetch, \<^verbatim>\<open>LOCK\<close> is true and the challenge is with the worker; a call of
  \<^verbatim>\<open>solveCaptchaRunner\<close> in that state shows the "during" text and calls
  \<^verbatim>\<open>fetchPoWConfig\<close> a second time, and when that fetch succeeds a second challenge
  is posted to the worker.
\<close>

theorem second_call_under_LOCK_fetches_again:
  "run ''k1''
     [Message \<lparr>type = ''init'', payload = None\<rparr>,
      ConfigFetched (Inr \<lparr>PoWConfig.key = ''k1'', string = ''salt1'', duration = 30\<rparr>)]
     init_orch
   = Some \<lparr>LOCK = True,
           config = Some \<lparr>PoWConfig.key = ''k1'', string = ''salt1'', duration = 30\<rparr>,
           fetching = 0, submitting = 0,
           trace = [During, FetchPoWConfig,
                    PostMessage \<lparr>PoWConfig.key = ''k1'', string = ''salt1'', duration = 30\<rparr>]\<rparr>
   \<and> run ''k1''
     [Message \<lparr>type = ''init'', payload = None\<rparr>,
      ConfigFetched (Inr \<lparr>PoWConfig.key = ''k1'', string = ''salt1'', duration = 30\<rparr>),
      Call,
      ConfigFetched (Inr \<lparr>PoWConfig.key = ''k1'', string = ''salt2'', duration = 30\<rparr>)]
     init_orch
   = Some \<lparr>LOCK = True,
           config = Some \<lparr>PoWConfig.key = ''k1'', string = ''salt2'', duration = 30\<rparr>,
           fetching = 0, submitting = 0,
           trace = [During, FetchPoWConfig,
                    PostMessage \<lparr>PoWConfig.key = ''k1'', string = ''salt1'', duration = 30\<rparr>,
                    During, FetchPoWConfig,
                    PostMessage \<lparr>PoWConfig.key = ''k1'', string = ''salt2'', duration = 30\<rparr>]\<rparr>"
  by (simp add: orch_defs init_orch_def)

text \<open>
  C10. A call of \<^verbatim>\<open>solveCaptchaRunner\<close> has set \<^verbatim>\<open>LOCK\<close> to true when it suspends at
  its \<^verbatim>\<open>await\<close>. Over all steps of the module, \<^verbatim>\<open>LOCK\<close> after a step is: true after a
  call of \<^verbatim>\<open>solveCaptchaRunner\<close> (directly or through an \<^verbatim>\<open>init\<close> message), false
  after a failed config fetch, false after an accepted submission, and unchanged after
  anything else. Where a step turns \<^verbatim>\<open>LOCK\<close> from true to false, it is the \<^verbatim>\<open>catch\<close>
  block (error text, then log) or the end of the \<^verbatim>\<open>result\<close> branch (token relayed,
  checkbox checked, "after" text).
\<close>

theorem LOCK_writes:
  assumes "step sitekey ev s = Some s'"
  shows "LOCK (solveCaptchaRunner_call s)
         \<and> LOCK s' =
            (case ev of
               Call \<Rightarrow> True
             | Message resp \<Rightarrow> type resp = ''init'' \<or> LOCK s
             | ConfigFetched r \<Rightarrow> (case r of Inl e \<Rightarrow> False | Inr c \<Rightarrow> LOCK s)
             | WorkSent r \<Rightarrow> (case r of Inl e \<Rightarrow> LOCK s | Inr token \<Rightarrow> False))
         \<and> (LOCK s \<and> \<not> LOCK s' \<longrightarrow>
              (\<exists>e. ev = ConfigFetched (Inl e)
                    \<and> trace s' = trace s @ [ErrorText, ConsoleError e])
              \<or> (\<exists>token. ev = WorkSent (Inr token)
                    \<and> trace s' = trace s @ [SendToParent token, Checked, After]))"
  using assms
  by (cases ev) (auto simp: orch_defs split: if_splits option.splits sum.splits)

theorem LOCK_writes_witness:
  "step ''k1'' (WorkSent (Inr ''tok-789''))
     \<lparr>LOCK = True, config = None, fetching = 0, submitting = 1, trace = []\<rparr>
     = Some \<lparr>LOCK = False, config = None, fetching = 0, submitting = 0,
             trace = [SendToParent ''tok-789'', Checked, After]\<rparr>
   \<and> LOCK (solveCaptchaRunner_call
             \<lparr>LOCK = True, config = None, fetching = 0, submitting = 1, trace = []\<rparr>)"
proof -
  have h: "step ''k1'' (WorkSent (Inr ''tok-789''))
     \<lparr>LOCK = True, config = None, fetching = 0, submitting = 1, trace = []\<rparr>
     = Some \<lparr>LOCK = False, config = None, fetching = 0, submitting = 0,
             trace = [SendToParent ''tok-789'', Checked, After]\<rparr>"
    by (simp add: orch_defs)
  from LOCK_writes [OF h] h show ?thesis by simp
qed

section \<open>Failure of the two network calls\<close>

text \<open>
  C6. When the config fetch of a solve cycle fails, the \<^verbatim>\<open>catch\<close> block shows the error
  text, logs the error and sets \<^verbatim>\<open>LOCK\<close> to false; nothing is posted to the worker and
  \<^verbatim>\<open>config\<close> keeps its value. A call of \<^verbatim>\<open>solveCaptchaRunner\<close> from the state reached
  starts a new fetch.
\<close>

theorem config_fetch_failure_releases_guard:
  assumes "step sitekey (ConfigFetched (Inl e)) s = Some s'"
  shows "\<not> LOCK s' \<and> trace s' = trace s @ [ErrorText, ConsoleError e]
         \<and> config s' = config s
         \<and> step sitekey Call s'
             = Some (s'\<lparr>LOCK := True, fetching := Suc (fetching s'),
                        trace := trace s' @ [During, FetchPoWConfig]\<rparr>)"
  using assms
  by (auto simp: step_def solveCaptchaRunner_resume_def solveCaptchaRunner_call_def
           split: if_splits)

theorem config_fetch_failure_releases_guard_witness:
  "run ''site'' [Call, ConfigFetched (Inl NetworkError), Call] init_orch
     = Some \<lparr>LOCK = True, config = None, fetching = 1, submitting = 0,
             trace = [During, FetchPoWConfig, ErrorText, ConsoleError NetworkError,
                      During, FetchPoWConfig]\<rparr>"
proof -
  let ?s = "solveCaptchaRunner_call init_orch"
  let ?s' = "\<lparr>LOCK = False, config = None, fetching = 0, submitting = 0,
              trace = [During, FetchPoWConfig, ErrorText, ConsoleError NetworkError]\<rparr>"
  have h: "step ''site'' (ConfigFetched (Inl NetworkError)) ?s = Some ?s'"
    by (simp add: step_def solveCaptchaRunner_resume_def solveCaptchaRunner_call_def
          init_orch_def)
  have c: "step ''site'' Call init_orch = Some ?s"
    by (simp add: step_def)
  from config_fetch_failure_releases_guard [OF h] c h show ?thesis
    by simp
qed

text \<open>
  C2. The claim: when \<^verbatim>\<open>sendWork\<close> fails, the error is shown and \<^verbatim>\<open>LOCK\<close> becomes
  false. The \<^verbatim>\<open>result\<close> branch has no \<^verbatim>\<open>try\<close>: in the cycle below the server answers
  that the challenge has expired, the rejection leaves the handler unhandled, no error
  text is shown, the token is not relayed, and \<^verbatim>\<open>LOCK\<close> is still true at the end.
\<close>

theorem rejected_submission_keeps_LOCK:
  "run ''k1''
     [Message \<lparr>type = ''init'', payload = None\<rparr>,
      ConfigFetched (Inr \<lparr>PoWConfig.key = ''k1'', string = ''salt1'', duration = 30\<rparr>),
      Message \<lparr>type = ''result'',
               payload = Some \<lparr>work = \<lparr>WasmWork.nonce = 42, result = ''abc''\<rparr>\<rparr>\<rparr>,
      WorkSent (Inl ChallengeExpired)]
     init_orch
   = Some \<lparr>LOCK = True,
           config = Some \<lparr>PoWConfig.key = ''k1'', string = ''salt1'', duration = 30\<rparr>,
           fetching = 0, submitting = 0,
           trace = [During, FetchPoWConfig,
                    PostMessage \<lparr>PoWConfig.key = ''k1'', string = ''salt1'', duration = 30\<rparr>,
                    SendWork \<lparr>key = ''k1'', string = ''salt1'', nonce = 42, result = ''abc''\<rparr>,
                    Unhandled ChallengeExpired]\<rparr>"
  by (simp add: orch_defs init_orch_def)

section \<open>Messages from the worker\<close>

text \<open>
  C9. A worker message whose type is neither \<^verbatim>\<open>init\<close> nor \<^verbatim>\<open>result\<close> (\<^verbatim>\<open>progress\<close>,
  for one) falls through the \<^verbatim>\<open>switch\<close>: the step is taken, and the state, with
  \<^verbatim>\<open>LOCK\<close>, \<^verbatim>\<open>config\<close> and the trace (so no unhandled rejection either), is the one
  before.
\<close>

theorem unrecognised_message_is_noop:
  assumes "type resp \<noteq> ''init''" and "type resp \<noteq> ''result''"
  shows "step sitekey (Message resp) s = Some s"
  using assms by (simp add: step_def onmessage_def)

theorem unrecognised_message_is_noop_witness:
  "step ''site'' (Message \<lparr>type = ''progress'', payload = None\<rparr>) init_orch = Some init_orch"
  using unrecognised_message_is_noop
    [of "\<lparr>type = ''progress'', payload = None\<rparr>" "''site''" init_orch]
  by simp

text \<open>
  C7, as claimed: the worker's \<^verbatim>\<open>ready\<close> message starts the first solve cycle. The
  \<^verbatim>\<open>switch\<close> has no case for \<^verbatim>\<open>ready\<close>: delivered to the freshly loaded module, the
  message changes nothing, and no fetch is issued.
\<close>

theorem ready_message_starts_nothing:
  "run ''k1'' [Message ready] init_orch = Some init_orch
   \<and> \<not> LOCK init_orch \<and> fetching init_orch = 0 \<and> trace init_orch = []"
  by (simp add: orch_defs init_orch_def ready_def)

text \<open>
  C7, amended: the message that starts the first cycle is \<^verbatim>\<open>init\<close>, not \<^verbatim>\<open>ready\<close>.
  After any worker messages of types other than \<^verbatim>\<open>init\<close> on the freshly loaded
  module, no config fetch has been issued or is pending and \<^verbatim>\<open>LOCK\<close> is false; a
  \<^verbatim>\<open>ready\<close> message leaves that state as it is; the \<^verbatim>\<open>init\<close> message then sets
  \<^verbatim>\<open>LOCK\<close>, shows the "during" text and issues the first fetch.
\<close>

theorem init_message_starts_first_cycle:
  assumes "\<forall>m \<in> set ms. type m \<noteq> ''init''"
  shows "\<exists>s. run sitekey (map Message ms) init_orch = Some s
             \<and> \<not> LOCK s \<and> fetching s = 0 \<and> FetchPoWConfig \<notin> set (trace s)
             \<and> step sitekey (Message ready) s = Some s
             \<and> step sitekey (Message \<lparr>type = ''init'', payload = pl\<rparr>) s
                 = Some (s\<lparr>LOCK := True, fetching := 1,
                           trace := trace s @ [During, FetchPoWConfig]\<rparr>)"
proof -
  from other_messages_idle [OF assms, of init_orch sitekey] obtain s where
    s: "run sitekey (map Message ms) init_orch = Some s" "\<not> LOCK s" "fetching s = 0"
       "FetchPoWConfig \<notin> set (trace s)"
    by (auto simp: init_orch_def)
  have "step sitekey (Message \<lparr>type = ''init'', payload = pl\<rparr>) s
          = Some (s\<lparr>LOCK := True, fetching := 1, trace := trace s @ [During, FetchPoWConfig]\<rparr>)"
    using s(3) by (simp add: step_def onmessage_def solveCaptchaRunner_call_def)
  moreover have "step sitekey (Message ready) s = Some s"
    by (simp add: step_def onmessage_def ready_def)
  ultimately show ?thesis using s by blast
qed

theorem init_message_starts_first_cycle_witness:
  "type ready \<noteq> ''init''
   \<and> run ''k1'' (map Message worker_startup) init_orch
       = Some \<lparr>LOCK = True, config = None, fetching = 1, submitting = 0,
               trace = [During, FetchPoWConfig]\<rparr>"
proof -
  have h: "\<forall>m \<in> set [ready]. type m \<noteq> ''init''"
    by (simp add: ready_def)
  from init_message_starts_first_cycle [OF h, of "''k1''" None] show ?thesis
    by (simp add: orch_defs init_orch_def ready_def worker_startup_def)
qed

section \<open>Submission and relay\<close>

text \<open>
  C4. In every run of the module from its initial state, the continuation of an accepted
  submission relays the token, checks the checkbox, shows the "after" text and leaves
  \<^verbatim>\<open>LOCK\<close> false, all in that one step. Tokens are relayed there and nowhere else: the
  number relayed is the number of accepted submissions, each step of that kind adds one,
  and it never exceeds the number of \<^verbatim>\<open>result\<close> messages received before.
\<close>

theorem token_relayed_once_after_result:
  assumes "run sitekey evs init_orch = Some s"
    and "step sitekey (WorkSent (Inr token)) s = Some s'"
  shows "trace s' = trace s @ [SendToParent token, Checked, After]
         \<and> \<not> LOCK s'
         \<and> relays s = length (filter is_accepted evs)
         \<and> relays s' = Suc (relays s)
         \<and> relays s' \<le> length (filter is_result evs)"
proof -
  from assms(2) have pending: "0 < submitting s"
    and tr: "trace s' = trace s @ [SendToParent token, Checked, After]"
    and lk: "\<not> LOCK s'"
    by (auto simp: step_def onmessage_resume_def split: if_splits)
  from run_relays [OF assms(1)] have acc: "relays s = length (filter is_accepted evs)"
    by (simp add: relays_def init_orch_def)
  from run_owed [OF assms(1)] have "submitting s + relays s \<le> length (filter is_result evs)"
    by (simp add: relays_def init_orch_def)
  with pending have "Suc (relays s) \<le> length (filter is_result evs)"
    by simp
  moreover from tr have "relays s' = Suc (relays s)"
    by (simp add: relays_def)
  ultimately show ?thesis using tr lk acc by simp
qed

theorem token_relayed_once_after_result_witness:
  "run ''k1''
     [Message \<lparr>type = ''init'', payload = None\<rparr>,
      ConfigFetched (Inr \<lparr>PoWConfig.key = ''k1'', string = ''salt1'', duration = 30\<rparr>),
      Message \<lparr>type = ''result'',
               payload = Some \<lparr>work = \<lparr>WasmWork.nonce = 42, result = ''abc''\<rparr>\<rparr>\<rparr>,
      WorkSent (Inr ''tok-789'')]
     init_orch
   = Some \<lparr>LOCK = False,
           config = Some \<lparr>PoWConfig.key = ''k1'', string = ''salt1'', duration = 30\<rparr>,
           fetching = 0, submitting = 0,
           trace = [During, FetchPoWConfig,
                    PostMessage \<lparr>PoWConfig.key = ''k1'', string = ''salt1'', duration = 30\<rparr>,
                    SendWork \<lparr>key = ''k1'', string = ''salt1'', nonce = 42, result = ''abc''\<rparr>,
                    SendToParent ''tok-789'', Checked, After]\<rparr>"
proof -
  let ?c = "\<lparr>PoWConfig.key = ''k1'', string = ''salt1'', duration = 30\<rparr>"
  let ?evs = "[Message \<lparr>type = ''init'', payload = None\<rparr>, ConfigFetched (Inr ?c),
      Message \<lparr>type = ''result'',
               payload = Some \<lparr>work = \<lparr>WasmWork.nonce = 42, result = ''abc''\<rparr>\<rparr>\<rparr>]"
  let ?s = "\<lparr>LOCK = True, config = Some ?c, fetching = 0, submitting = 1,
            trace = [During, FetchPoWConfig, PostMessage ?c,
                     SendWork \<lparr>key = ''k1'', string = ''salt1'', nonce = 42,
                                result = ''abc''\<rparr>]\<rparr>"
  let ?s' = "\<lparr>LOCK = False, config = Some ?c, fetching = 0, submitting = 0,
            trace = [During, FetchPoWConfig, PostMessage ?c,
                     SendWork \<lparr>key = ''k1'', string = ''salt1'', nonce = 42,
                                result = ''abc''\<rparr>,
                     SendToParent ''tok-789'', Checked, After]\<rparr>"
  have a: "run ''k1'' ?evs init_orch = Some ?s"
    by (simp add: orch_defs init_orch_def)
  have b: "step ''k1'' (WorkSent (Inr ''tok-789'')) ?s = Some ?s'"
    by (simp add: orch_defs)
  from token_relayed_once_after_result [OF a b] show ?thesis
    by (simp add: orch_defs init_orch_def)
qed

text \<open>
  C5, as claimed: the proof submitted for a result carries the key and the string of the
  challenge that result answers. The key is \<^verbatim>\<open>CONST.sitekey()\<close>, not a field of the
  challenge, and the string is read from the module-level \<^verbatim>\<open>config\<close> when the result
  arrives. Below, the widget's site key is \<open>site\<close>; a first challenge (key \<open>k1\<close>,
  string \<open>salt1\<close>) goes to the worker, a second call of \<^verbatim>\<open>solveCaptchaRunner\<close> fetches
  and posts a challenge with string \<open>salt2\<close>, and then the worker's first answer arrives:
  the proof submitted has key \<open>site\<close> and string \<open>salt2\<close>.
\<close>

theorem proof_not_from_originating_challenge:
  "run ''site''
     [Message \<lparr>type = ''init'', payload = None\<rparr>,
      ConfigFetched (Inr \<lparr>PoWConfig.key = ''k1'', string = ''salt1'', duration = 30\<rparr>),
      Call,
      ConfigFetched (Inr \<lparr>PoWConfig.key = ''k1'', string = ''salt2'', duration = 30\<rparr>),
      Message \<lparr>type = ''result'',
               payload = Some \<lparr>work = \<lparr>WasmWork.nonce = 42, result = ''abc''\<rparr>\<rparr>\<rparr>]
     init_orch
   = Some \<lparr>LOCK = True,
           config = Some \<lparr>PoWConfig.key = ''k1'', string = ''salt2'', duration = 30\<rparr>,
           fetching = 0, submitting = 1,
           trace = [During, FetchPoWConfig,
                    PostMessage \<lparr>PoWConfig.key = ''k1'', string = ''salt1'', duration = 30\<rparr>,
                    During, FetchPoWConfig,
                    PostMessage \<lparr>PoWConfig.key = ''k1'', string = ''salt2'', duration = 30\<rparr>,
                    SendWork \<lparr>key = ''site'', string = ''salt2'', nonce = 42, result = ''abc''\<rparr>]\<rparr>
   \<and> Work.key \<lparr>key = ''site'', string = ''salt2'', nonce = 42, result = ''abc''\<rparr>
       \<noteq> PoWConfig.key \<lparr>PoWConfig.key = ''k1'', string = ''salt1'', duration = 30\<rparr>
   \<and> Work.string \<lparr>key = ''site'', string = ''salt2'', nonce = 42, result = ''abc''\<rparr>
       \<noteq> PoWConfig.string \<lparr>PoWConfig.key = ''k1'', string = ''salt1'', duration = 30\<rparr>"
  by (simp add: orch_defs init_orch_def)

text \<open>
  C5, amended: take a result that answers the only challenge outstanding. That is: every
  challenge posted to the worker earlier has been answered; then a fetched challenge \<open>c\<close>
  is stored and posted; since then no other fetch has succeeded and no other result has
  arrived. The \<^verbatim>\<open>result\<close> message then makes the module submit the proof whose key is
  the site key, whose string is the string of \<open>c\<close>, and whose nonce and result are the ones
  the worker reported.
\<close>

theorem proof_built_from_only_outstanding_challenge:
  assumes "run sitekey evs init_orch = Some s1"
    and "outstanding 0 evs = 0"
    and "step sitekey (ConfigFetched (Inr c)) s1 = Some s2"
    and "run sitekey evs' s2 = Some s3"
    and "filter stores_config evs' = []"
    and "filter is_result evs' = []"
    and "type resp = ''result''"
    and "payload resp = Some p"
  shows "outstanding 0 (evs @ ConfigFetched (Inr c) # evs') = 1
         \<and> (\<exists>t. trace s3 = trace s1 @ PostMessage c # t \<and> filter is_post t = [])
         \<and> step sitekey (Message resp) s3
             = Some (s3\<lparr>submitting := Suc (submitting s3),
                        trace := trace s3 @
                          [SendWork \<lparr>key = sitekey, string = PoWConfig.string c,
                                     nonce = WasmWork.nonce (work p),
                                     result = WasmWork.result (work p)\<rparr>]\<rparr>)"
proof -
  have "outstanding 0 (evs @ ConfigFetched (Inr c) # evs') = outstanding 1 evs'"
    using assms(2) by (simp add: outstanding_append)
  with outstanding_quiet [OF assms(5,6)]
  have one: "outstanding 0 (evs @ ConfigFetched (Inr c) # evs') = 1"
    by simp
  from assms(3) have c2: "config s2 = Some c" and t2: "trace s2 = trace s1 @ [PostMessage c]"
    by (auto simp: step_def solveCaptchaRunner_resume_def split: if_splits)
  from run_keeps_config [OF assms(4,5)] obtain t where
    c3: "config s3 = config s2" and t3: "trace s3 = trace s2 @ t" "filter is_post t = []"
    by blast
  from t2 t3 have "trace s3 = trace s1 @ PostMessage c # t \<and> filter is_post t = []"
    by simp
  moreover from c2 c3 assms(7,8) have "step sitekey (Message resp) s3
             = Some (s3\<lparr>submitting := Suc (submitting s3),
                        trace := trace s3 @
                          [SendWork \<lparr>key = sitekey, string = PoWConfig.string c,
                                     nonce = WasmWork.nonce (work p),
                                     result = WasmWork.result (work p)\<rparr>]\<rparr>)"
    by (simp add: step_def onmessage_def)
  ultimately show ?thesis using one by blast
qed

theorem proof_built_from_only_outstanding_challenge_witness:
  "run ''k1''
     [Message \<lparr>type = ''init'', payload = None\<rparr>,
      ConfigFetched (Inr \<lparr>PoWConfig.key = ''k1'', string = ''salt1'', duration = 30\<rparr>),
      Message \<lparr>type = ''result'',
               payload = Some \<lparr>work = \<lparr>WasmWork.nonce = 42, result = ''abc''\<rparr>\<rparr>\<rparr>,
      WorkSent (Inr ''tok-789''),
      Call,
      ConfigFetched (Inr \<lparr>PoWConfig.key = ''k1'', string = ''salt2'', duration = 30\<rparr>),
      Message \<lparr>type = ''progress'', payload = None\<rparr>,
      Message \<lparr>type = ''result'',
               payload = Some \<lparr>work = \<lparr>WasmWork.nonce = 7, result = ''def''\<rparr>\<rparr>\<rparr>]
     init_orch
   = Some \<lparr>LOCK = True,
           config = Some \<lparr>PoWConfig.key = ''k1'', string = ''salt2'', duration = 30\<rparr>,
           fetching = 0, submitting = 1,
           trace = [During, FetchPoWConfig,
                    PostMessage \<lparr>PoWConfig.key = ''k1'', string = ''salt1'', duration = 30\<rparr>,
                    SendWork \<lparr>key = ''k1'', string = ''salt1'', nonce = 42, result = ''abc''\<rparr>,
                    SendToParent ''tok-789'', Checked, After,
                    During, FetchPoWConfig,
                    PostMessage \<lparr>PoWConfig.key = ''k1'', string = ''salt2'', duration = 30\<rparr>,
                    SendWork \<lparr>key = ''k1'', string = ''salt2'', nonce = 7, result = ''def''\<rparr>]\<rparr>
   \<and> outstanding 0
       [Message \<lparr>type = ''init'', payload = None\<rparr>,
        ConfigFetched (Inr \<lparr>PoWConfig.key = ''k1'', string = ''salt1'', duration = 30\<rparr>),
        Message \<lparr>type = ''result'',
                 payload = Some \<lparr>work = \<lparr>WasmWork.nonce = 42, result = ''abc''\<rparr>\<rparr>\<rparr>,
        WorkSent (Inr ''tok-789''),
        Call,
        ConfigFetched (Inr \<lparr>PoWConfig.key = ''k1'', string = ''salt2'', duration = 30\<rparr>),
        Message \<lparr>type = ''progress'', payload = None\<rparr>] = 1"
proof -
  let ?c1 = "\<lparr>PoWConfig.key = ''k1'', string = ''salt1'', duration = 30\<rparr>"
  let ?c2 = "\<lparr>PoWConfig.key = ''k1'', string = ''salt2'', duration = 30\<rparr>"
  let ?evs = "[Message \<lparr>type = ''init'', payload = None\<rparr>, ConfigFetched (Inr ?c1),
      Message \<lparr>type = ''result'',
               payload = Some \<lparr>work = \<lparr>WasmWork.nonce = 42, result = ''abc''\<rparr>\<rparr>\<rparr>,
      WorkSent (Inr ''tok-789''), Call]"
  let ?t1 = "[During, FetchPoWConfig, PostMessage ?c1,
      SendWork \<lparr>key = ''k1'', string = ''salt1'', nonce = 42, result = ''abc''\<rparr>,
      SendToParent ''tok-789'', Checked, After, During, FetchPoWConfig]"
  let ?s1 = "\<lparr>LOCK = True, config = Some ?c1, fetching = 1, submitting = 0, trace = ?t1\<rparr>"
  let ?s2 = "\<lparr>LOCK = True, config = Some ?c2, fetching = 0, submitting = 0,
              trace = ?t1 @ [PostMessage ?c2]\<rparr>"
  let ?evs' = "[Message \<lparr>type = ''progress'', payload = None\<rparr>]"
  let ?resp = "\<lparr>type = ''result'',
                payload = Some \<lparr>work = \<lparr>WasmWork.nonce = 7, result = ''def''\<rparr>\<rparr>\<rparr>"
  have a: "run ''k1'' ?evs init_orch = Some ?s1"
    by (simp add: orch_defs init_orch_def)
  have b: "outstanding 0 ?evs = 0"
    by simp
  have c: "step ''k1'' (ConfigFetched (Inr ?c2)) ?s1 = Some ?s2"
    by (simp add: orch_defs)
  have d: "run ''k1'' ?evs' ?s2 = Some ?s2"
    by (simp add: orch_defs)
  have e: "filter stores_config ?evs' = []" "filter is_result ?evs' = []"
    by simp_all
  have f: "type ?resp = ''result''"
    "payload ?resp = Some \<lparr>work = \<lparr>WasmWork.nonce = 7, result = ''def''\<rparr>\<rparr>"
    by simp_all
  from proof_built_from_only_outstanding_challenge [OF a b c d e f] show ?thesis
    by (simp add: orch_defs init_orch_def)
qed

section \<open>The worker's handler\<close>

text \<open>
  C3. The claim: for every challenge the worker emits exactly one result, carrying the
  least nonce that meets the difficulty. The handler never calls \<^verbatim>\<open>prove\<close>; it reads
  \<^verbatim>\<open>work\<close>, which nothing binds. Delivered a challenge after start-up, the handler
  throws \<^verbatim>\<open>ReferenceError\<close> and the messages posted are still only the two of start-up:
  no result.
\<close>

theorem worker_posts_no_result:
  "onmessage_worker module_scope \<lparr>PoWConfig.key = ''k1'', string = ''salt1'', duration = 30\<rparr>
     worker_startup
   = (Some (ReferenceError ''work''), worker_startup)
   \<and> worker_startup = [\<lparr>type = ''ready'', payload = None\<rparr>, \<lparr>type = ''init'', payload = None\<rparr>]"
  by (simp add: onmessage_worker_def read_identifier_def module_scope_def worker_startup_def
        ready_def)


end
